theory Spec2Isabelle
  imports Complex_Main "HOL-Library.AList"
begin

section \<open>JavaScript values\<close>

text \<open>
  The engine passes values of type \<^verbatim>\<open>unknown\<close> between nodes. The model keeps the
  primitive values apart, because the source tests for them (\<^verbatim>\<open>??\<close>,
  \<^verbatim>\<open>!== undefined\<close>, \<^verbatim>\<open>typeof\<close>, \<^verbatim>\<open>Number(...)\<close>); objects, arrays and functions are
  opaque references. A finite number is an exact rational (the rounding of IEEE doubles is
  not modelled); the three non-finite doubles are constructors of their own.
\<close>

datatype jsnum = JNaN | JNegInf | JFin rat | JPosInf

datatype jsval = JUndefined | JNull | JBool bool | JNum jsnum | JStr string | JRef nat

text \<open>A \<^verbatim>\<open>Record<string, unknown>\<close>: own properties by name. Reading a missing property
  gives \<^verbatim>\<open>undefined\<close>.\<close>

type_synonym js_record = "string \<rightharpoonup> jsval"

definition record_get :: "js_record \<Rightarrow> string \<Rightarrow> jsval" where
  "record_get r k = (case r k of None \<Rightarrow> JUndefined | Some v \<Rightarrow> v)"

text \<open>\<^verbatim>\<open>a ?? b\<close>: the right operand exactly when the left one is \<^verbatim>\<open>null\<close> or
  \<^verbatim>\<open>undefined\<close>.\<close>

definition nullish :: "jsval \<Rightarrow> bool" where
  "nullish v = (v = JUndefined \<or> v = JNull)"

definition coalesce :: "jsval \<Rightarrow> jsval \<Rightarrow> jsval" where
  "coalesce a b = (if nullish a then b else a)"

text \<open>
  The conversions the source leaves to the language: \<^verbatim>\<open>Number(v)\<close> of a string or of an
  object is a parameter (\<open>conv\<close>), and so is \<^verbatim>\<open>v + 1\<close> of an object (\<open>refplus\<close>); on the other
  primitives they are written out.
\<close>

record js_runtime =
  conv :: "jsval \<Rightarrow> jsnum"
  refplus :: "nat \<Rightarrow> jsval"

fun js_Number :: "js_runtime \<Rightarrow> jsval \<Rightarrow> jsnum" where
  "js_Number rt JUndefined = JNaN"
| "js_Number rt JNull = JFin 0"
| "js_Number rt (JBool b) = JFin (if b then 1 else 0)"
| "js_Number rt (JNum n) = n"
| "js_Number rt (JStr s) = conv rt (JStr s)"
| "js_Number rt (JRef r) = conv rt (JRef r)"

fun isFinite :: "jsnum \<Rightarrow> bool" where
  "isFinite (JFin q) = True"
| "isFinite _ = False"

text \<open>\<^verbatim>\<open>a < b\<close> on numbers: false as soon as one side is NaN.\<close>

fun num_lt :: "jsnum \<Rightarrow> jsnum \<Rightarrow> bool" where
  "num_lt JNaN _ = False"
| "num_lt _ JNaN = False"
| "num_lt (JFin a) (JFin b) = (a < b)"
| "num_lt JNegInf JNegInf = False"
| "num_lt JNegInf _ = True"
| "num_lt _ JNegInf = False"
| "num_lt JPosInf _ = False"
| "num_lt _ JPosInf = True"

fun num_floor :: "jsnum \<Rightarrow> jsnum" where
  "num_floor (JFin q) = JFin (of_int \<lfloor>q\<rfloor>)"
| "num_floor n = n"

text \<open>\<^verbatim>\<open>Math.max(0, n)\<close>.\<close>

fun num_max0 :: "jsnum \<Rightarrow> jsnum" where
  "num_max0 JNaN = JNaN"
| "num_max0 JNegInf = JFin 0"
| "num_max0 (JFin q) = JFin (max 0 q)"
| "num_max0 JPosInf = JPosInf"

fun num_succ :: "jsnum \<Rightarrow> jsnum" where
  "num_succ (JFin q) = JFin (q + 1)"
| "num_succ n = n"

text \<open>\<^verbatim>\<open>v < limit\<close> with a number on the right: the left operand is converted to a
  number.\<close>

definition js_lt :: "js_runtime \<Rightarrow> jsval \<Rightarrow> jsnum \<Rightarrow> bool" where
  "js_lt rt v limit = num_lt (js_Number rt v) limit"

text \<open>\<^verbatim>\<open>v + 1\<close>: numeric addition, except that a string operand makes it a
  concatenation.\<close>

fun js_plus_one :: "js_runtime \<Rightarrow> jsval \<Rightarrow> jsval" where
  "js_plus_one rt (JStr s) = JStr (s @ ''1'')"
| "js_plus_one rt (JRef r) = refplus rt r"
| "js_plus_one rt v = JNum (num_succ (js_Number rt v))"

section \<open>Scope and blackboard\<close>

text \<open>\<^verbatim>\<open>VisScope\<close> and \<^verbatim>\<open>VisBlackboard\<close> wrap a \<^verbatim>\<open>Map<string, unknown>\<close>. A key can be
  present with the value \<^verbatim>\<open>undefined\<close>; \<^verbatim>\<open>get\<close> does not tell that from a missing key, the
  snapshot does.\<close>

type_synonym VisScope = "string \<rightharpoonup> jsval"
type_synonym VisBlackboard = "string \<rightharpoonup> jsval"

definition makeScopeKey :: "string \<Rightarrow> string \<Rightarrow> string" where
  "makeScopeKey nodeId pinId = nodeId @ '':'' @ pinId"

definition VisScope_set :: "string \<Rightarrow> string \<Rightarrow> jsval \<Rightarrow> VisScope \<Rightarrow> VisScope" where
  "VisScope_set nodeId pinId v values = values(makeScopeKey nodeId pinId \<mapsto> v)"

definition VisScope_get :: "VisScope \<Rightarrow> string \<Rightarrow> string \<Rightarrow> jsval" where
  "VisScope_get values nodeId pinId = record_get values (makeScopeKey nodeId pinId)"

definition snapshot :: "VisScope \<Rightarrow> js_record" where
  "snapshot values = values"

definition VisBlackboard_set :: "string \<Rightarrow> jsval \<Rightarrow> VisBlackboard \<Rightarrow> VisBlackboard" where
  "VisBlackboard_set k v st = st(k \<mapsto> v)"

definition VisBlackboard_get :: "VisBlackboard \<Rightarrow> string \<Rightarrow> jsval" where
  "VisBlackboard_get st k = record_get st k"

definition VisBlackboard_delete :: "string \<Rightarrow> VisBlackboard \<Rightarrow> VisBlackboard" where
  "VisBlackboard_delete k st = st(k := None)"

section \<open>Execution signal and context\<close>

record VisExecutionSignal =
  cancelled :: bool
  fastForward :: bool
  reason :: "string option"

record VisNodeExecutionContext =
  ctx_entityId :: string
  ctx_scope :: VisScope
  ctx_signal :: VisExecutionSignal
  ctx_inputs :: js_record

text \<open>The blackboard is the one part of the context the built-in control nodes write; it
  is threaded through the hooks as the state.\<close>

definition getInput :: "VisNodeExecutionContext \<Rightarrow> string \<Rightarrow> jsval \<Rightarrow> jsval" where
  "getInput ctx pinId fallback = coalesce (record_get (ctx_inputs ctx) pinId) fallback"

definition setVariable :: "string \<Rightarrow> jsval \<Rightarrow> VisBlackboard \<Rightarrow> VisBlackboard" where
  "setVariable k v bb = VisBlackboard_set k v bb"

definition getVariable :: "VisBlackboard \<Rightarrow> string \<Rightarrow> jsval" where
  "getVariable bb k = VisBlackboard_get bb k"

definition clearVariable :: "string \<Rightarrow> VisBlackboard \<Rightarrow> VisBlackboard" where
  "clearVariable k bb = VisBlackboard_delete k bb"

section \<open>Node protocol\<close>

datatype VisNodeStatus = Success | RunningStatus | Failure | Skipped

datatype VisFlowStrategy = Sequential | Parallel

record VisFlowTransition =
  t_pinId :: string
  t_strategy :: "VisFlowStrategy option"
  t_awaitCompletion :: "bool option"
  t_groupId :: "string option"

text \<open>Outputs are kept as the entries of the record, in the order \<^verbatim>\<open>Object.entries\<close>
  lists them.\<close>

record VisNodeExecutionResult =
  r_status :: VisNodeStatus
  r_outputs :: "(string \<times> jsval) list option"
  r_transitions :: "VisFlowTransition list option"
  r_waitFor :: "string list option"
  r_waitForNext :: "bool option"

definition transition :: "string \<Rightarrow> VisFlowTransition" where
  "transition p = \<lparr>t_pinId = p, t_strategy = None, t_awaitCompletion = None, t_groupId = None\<rparr>"

definition VisNodeResult_success ::
    "(string \<times> jsval) list option \<Rightarrow> VisFlowTransition list option \<Rightarrow> VisNodeExecutionResult" where
  "VisNodeResult_success outputs transitions =
     \<lparr>r_status = Success, r_outputs = outputs, r_transitions = transitions,
      r_waitFor = None, r_waitForNext = None\<rparr>"



text \<open>
  A node instance: its id and the two entry points a subclass can supply. A hook reads the
  context, acts on the shared state \<open>'w\<close> and either throws (\<open>Inl\<close>) or returns a result.
  \<open>fastForwardHook = None\<close> is a class that does not override \<^verbatim>\<open>onFastForward\<close>.
\<close>

type_synonym 'w hook =
  "VisNodeExecutionContext \<Rightarrow> 'w \<Rightarrow> string + (VisNodeExecutionResult \<times> 'w)"

record 'w VisRuntimeNode =
  n_id :: string
  onExecuteHook :: "'w hook"
  fastForwardHook :: "'w hook option"




section \<open>The Loop node\<close>

record VisLoopNode =
  loop_id :: string
  loop_count :: jsnum
  loopKey :: string

definition toNumber :: "js_runtime \<Rightarrow> jsval \<Rightarrow> jsnum \<Rightarrow> jsnum" where
  "toNumber rt v fallback = (let num = js_Number rt v in if isFinite num then num else fallback)"

definition loop_key :: "VisLoopNode \<Rightarrow> string" where
  "loop_key node = ''loop:'' @ loop_id node @ '':'' @ loopKey node"

definition loop_total :: "js_runtime \<Rightarrow> VisLoopNode \<Rightarrow> VisNodeExecutionContext \<Rightarrow> jsnum" where
  "loop_total rt node ctx =
     num_max0 (num_floor (toNumber rt (getInput ctx ''count'' (JNum (loop_count node)))
                            (loop_count node)))"

definition loop_onExecute ::
    "js_runtime \<Rightarrow> VisLoopNode \<Rightarrow> VisNodeExecutionContext \<Rightarrow> VisBlackboard
       \<Rightarrow> VisNodeExecutionResult \<times> VisBlackboard" where
  "loop_onExecute rt node ctx bb =
     (let limit = loop_total rt node ctx;
          key = loop_key node;
          current = coalesce (getVariable bb key) (JNum (JFin 0))
      in if js_lt rt current limit
         then (VisNodeResult_success (Some [(''index'', current)]) (Some [transition ''body'']),
               setVariable key (js_plus_one rt current) bb)
         else (VisNodeResult_success None (Some [transition ''complete'']),
               clearVariable key bb))"

text \<open>The Loop node as a node instance: its hook never throws.\<close>

definition VisLoopNode_instance :: "js_runtime \<Rightarrow> VisLoopNode \<Rightarrow> VisBlackboard VisRuntimeNode" where
  "VisLoopNode_instance rt node =
     \<lparr>n_id = loop_id node,
      onExecuteHook = (\<lambda>ctx bb. Inr (loop_onExecute rt node ctx bb)),
      fastForwardHook = None\<rparr>"

section \<open>Graph model and hydration\<close>

datatype vis_error =
    NodeTypeNotRegistered string
  | MissingNode string
  | Thrown string

record pin_ref =
  ref_nodeId :: string
  ref_pinId :: string

datatype connection_kind = FlowKind | DataKind

record VisSerializedConnection =
  c_kind :: connection_kind
  c_from :: pin_ref
  c_to :: pin_ref

record VisSerializedNode =
  sn_id :: string
  sn_type :: string
  sn_params :: "js_record option"
  sn_inputs :: "js_record option"
  sn_entityId :: "string option"

text \<open>\<^verbatim>\<open>root?: string | string[]\<close>.\<close>

datatype root_spec = NoRoot | RootId string | RootIds "string list"

record VisGraphAsset =
  a_id :: string
  a_name :: string
  a_root :: root_spec
  a_nodes :: "VisSerializedNode list"
  a_connections :: "VisSerializedConnection list option"

datatype VisPinDirection = PinIn | PinOut

record VisPinMetadata =
  pin_direction :: VisPinDirection
  pin_id :: string
  pin_strategy :: "VisFlowStrategy option"

record VisParameterMetadata =
  pm_propertyKey :: string
  pm_id :: string
  pm_defaultValue :: jsval

text \<open>A node definition of the registry. \<open>def_ctor\<close> stands for the constructor: the
  properties of a freshly constructed instance.\<close>

record VisNodeDefinition =
  def_defaultOutput :: "string option"
  def_pins :: "VisPinMetadata list"
  def_parameters :: "VisParameterMetadata list"
  def_ctor :: js_record

type_synonym VisNodeRegistry = "string \<rightharpoonup> VisNodeDefinition"

record VisGraphNode =
  gn_id :: string
  gn_type :: string
  gn_entityId :: "string option"
  gn_instance :: js_record
  gn_definition :: VisNodeDefinition
  gn_literalInputs :: js_record

text \<open>A \<^verbatim>\<open>Map\<close> whose iteration order matters is an association list in insertion
  order: \<^verbatim>\<open>get\<close> is \<^const>\<open>map_of\<close>, \<^verbatim>\<open>set\<close> is \<^const>\<open>AList.update\<close> (an
  existing key keeps its place).\<close>

record VisGraph =
  g_id :: string
  g_name :: string
  g_roots :: "string list"
  g_nodes :: "(string \<times> VisGraphNode) list"
  g_flowMap :: "(string \<times> (string \<times> string list) list) list"
  g_dataMap :: "(string \<times> (string \<times> pin_ref list) list) list"

definition connections_of :: "VisGraphAsset \<Rightarrow> VisSerializedConnection list" where
  "connections_of asset = (case a_connections asset of None \<Rightarrow> [] | Some cs \<Rightarrow> cs)"

text \<open>The computed roots of \<^verbatim>\<open>_resolveRoots\<close>: \<open>incoming\<close> is the \<^verbatim>\<open>Set\<close> of the target
  node ids of the connections, every connection adding its target.\<close>

definition computedRoots :: "VisGraphAsset \<Rightarrow> string list" where
  "computedRoots asset =
     (let incoming = fold (\<lambda>connection acc. List.insert (ref_nodeId (c_to connection)) acc)
                       (connections_of asset) [];
          roots = filter (\<lambda>i. i \<notin> set incoming) (map sn_id (a_nodes asset))
      in if roots \<noteq> [] then roots
         else (case a_nodes asset of [] \<Rightarrow> [] | node # _ \<Rightarrow> [sn_id node]))"

text \<open>\<^verbatim>\<open>if (asset.root)\<close>: an array is truthy even when empty, a string when it is not
  empty.\<close>

definition resolveRoots :: "VisGraphAsset \<Rightarrow> string list" where
  "resolveRoots asset =
     (case a_root asset of
        RootIds ids \<Rightarrow> ids
      | RootId s \<Rightarrow> if s \<noteq> [] then [s] else computedRoots asset
      | NoRoot \<Rightarrow> computedRoots asset)"

definition applyParameters ::
    "js_record \<Rightarrow> VisParameterMetadata list \<Rightarrow> js_record \<Rightarrow> js_record" where
  "applyParameters instance parameters values =
     fold (\<lambda>meta inst.
             let v = coalesce (record_get values (pm_id meta)) (pm_defaultValue meta)
             in if v \<noteq> JUndefined then inst(pm_propertyKey meta \<mapsto> v) else inst)
          parameters instance"

fun hydrateNodes ::
    "VisNodeRegistry \<Rightarrow> VisSerializedNode list \<Rightarrow> VisGraph \<Rightarrow> vis_error + VisGraph" where
  "hydrateNodes reg [] g = Inr g"
| "hydrateNodes reg (node # rest) g =
     (case reg (sn_type node) of
        None \<Rightarrow> Inl (NodeTypeNotRegistered (sn_type node))
      | Some definition \<Rightarrow>
          let fresh = (def_ctor definition)(''id'' \<mapsto> JStr (sn_id node));
              instance = applyParameters fresh (def_parameters definition)
                           (case sn_params node of None \<Rightarrow> Map.empty | Some ps \<Rightarrow> ps);
              graphNode = \<lparr>gn_id = sn_id node, gn_type = sn_type node,
                           gn_entityId = sn_entityId node, gn_instance = instance,
                           gn_definition = definition,
                           gn_literalInputs =
                             (case sn_inputs node of None \<Rightarrow> Map.empty | Some ins \<Rightarrow> ins)\<rparr>
          in hydrateNodes reg rest (g\<lparr>g_nodes := AList.update (sn_id node) graphNode (g_nodes g)\<rparr>))"

text \<open>\<^verbatim>\<open>_ensureFlow\<close> and \<^verbatim>\<open>_ensureData\<close>: the bucket of a node, created empty when
  missing.\<close>

definition ensure :: "string \<Rightarrow> (string \<times> (string \<times> 'a list) list) list
    \<Rightarrow> (string \<times> (string \<times> 'a list) list) list" where
  "ensure k m = (case map_of m k of None \<Rightarrow> AList.update k [] m | Some _ \<Rightarrow> m)"

definition bucket :: "(string \<times> (string \<times> 'a list) list) list \<Rightarrow> string \<Rightarrow> (string \<times> 'a list) list" where
  "bucket m k = (case map_of m k of None \<Rightarrow> [] | Some b \<Rightarrow> b)"

definition entries_of :: "(string \<times> 'a list) list \<Rightarrow> string \<Rightarrow> 'a list" where
  "entries_of b k = (case map_of b k of None \<Rightarrow> [] | Some l \<Rightarrow> l)"

text \<open>Both \<^verbatim>\<open>_addFlowConnection\<close> and \<^verbatim>\<open>_addDataConnection\<close> push one entry onto the
  list stored under (node, pin).\<close>

definition addTo :: "string \<Rightarrow> string \<Rightarrow> 'a \<Rightarrow> (string \<times> (string \<times> 'a list) list) list
    \<Rightarrow> (string \<times> (string \<times> 'a list) list) list" where
  "addTo n p x m =
     (let m1 = ensure n m;
          b = bucket m1 n;
          l = entries_of b p @ [x]
      in AList.update n (AList.update p l b) m1)"

definition addFlowConnection :: "VisSerializedConnection \<Rightarrow> VisGraph \<Rightarrow> VisGraph" where
  "addFlowConnection connection g =
     g\<lparr>g_flowMap := addTo (ref_nodeId (c_from connection)) (ref_pinId (c_from connection))
                      (ref_nodeId (c_to connection)) (g_flowMap g)\<rparr>"

definition addDataConnection :: "VisSerializedConnection \<Rightarrow> VisGraph \<Rightarrow> VisGraph" where
  "addDataConnection connection g =
     g\<lparr>g_dataMap := addTo (ref_nodeId (c_to connection)) (ref_pinId (c_to connection))
                      (c_from connection) (g_dataMap g)\<rparr>"

definition hydrateConnections :: "VisSerializedConnection list \<Rightarrow> VisGraph \<Rightarrow> VisGraph" where
  "hydrateConnections connections g =
     fold (\<lambda>connection g'.
             if c_kind connection = FlowKind then addFlowConnection connection g'
             else addDataConnection connection g')
          connections g"

definition fromAsset :: "VisNodeRegistry \<Rightarrow> VisGraphAsset \<Rightarrow> vis_error + VisGraph" where
  "fromAsset reg asset =
     (let g0 = \<lparr>g_id = a_id asset, g_name = a_name asset, g_roots = resolveRoots asset,
                g_nodes = [], g_flowMap = [], g_dataMap = []\<rparr>
      in case hydrateNodes reg (a_nodes asset) g0 of
           Inl e \<Rightarrow> Inl e
         | Inr g1 \<Rightarrow> Inr (hydrateConnections (connections_of asset) g1))"

definition getNode :: "VisGraph \<Rightarrow> string \<Rightarrow> vis_error + VisGraphNode" where
  "getNode g i = (case map_of (g_nodes g) i of None \<Rightarrow> Inl (MissingNode i) | Some node \<Rightarrow> Inr node)"

definition getNext :: "VisGraph \<Rightarrow> string \<Rightarrow> string \<Rightarrow> string list" where
  "getNext g n p = entries_of (bucket (g_flowMap g) n) p"

text \<open>The inner loop of \<^verbatim>\<open>buildInputs\<close>: the sources of one pin, in order.\<close>

definition overlaySources :: "VisScope \<Rightarrow> string \<Rightarrow> pin_ref list \<Rightarrow> js_record \<Rightarrow> js_record" where
  "overlaySources scope p sources values =
     fold (\<lambda>source vals.
             let v = VisScope_get scope (ref_nodeId source) (ref_pinId source)
             in if v \<noteq> JUndefined then vals(p \<mapsto> v) else vals)
          sources values"

definition buildInputs :: "VisGraph \<Rightarrow> string \<Rightarrow> VisScope \<Rightarrow> vis_error + js_record" where
  "buildInputs g n scope =
     (case getNode g n of
        Inl e \<Rightarrow> Inl e
      | Inr node \<Rightarrow>
          (case map_of (g_dataMap g) n of
             None \<Rightarrow> Inr (gn_literalInputs node)
           | Some binding \<Rightarrow>
               Inr (fold (\<lambda>(p, sources) vals. overlaySources scope p sources vals)
                      binding (gn_literalInputs node))))"

subsection \<open>What the specification says of roots and inputs\<close>

text \<open>The roots as the specification words them: the nodes without an inbound
  \<^emph>\<open>flow\<close> connection, else the first node.\<close>

definition flow_targets :: "VisGraphAsset \<Rightarrow> string set" where
  "flow_targets asset =
     (\<lambda>c. ref_nodeId (c_to c)) ` {c \<in> set (connections_of asset). c_kind c = FlowKind}"

definition roots_without_inbound_flow :: "VisGraphAsset \<Rightarrow> string list" where
  "roots_without_inbound_flow asset =
     (let roots = filter (\<lambda>i. i \<notin> flow_targets asset) (map sn_id (a_nodes asset))
      in if roots \<noteq> [] then roots
         else (case a_nodes asset of [] \<Rightarrow> [] | node # _ \<Rightarrow> [sn_id node]))"

text \<open>The same with every connection counted, whatever its kind.\<close>

definition connection_targets :: "VisGraphAsset \<Rightarrow> string set" where
  "connection_targets asset = (\<lambda>c. ref_nodeId (c_to c)) ` set (connections_of asset)"

definition roots_without_inbound :: "VisGraphAsset \<Rightarrow> string list" where
  "roots_without_inbound asset =
     (let roots = filter (\<lambda>i. i \<notin> connection_targets asset) (map sn_id (a_nodes asset))
      in if roots \<noteq> [] then roots
         else (case a_nodes asset of [] \<Rightarrow> [] | node # _ \<Rightarrow> [sn_id node]))"






subsection \<open>What the specification says of the Loop node\<close>





section \<open>The graph runner\<close>

text \<open>
  \<^verbatim>\<open>VisGraphRunner\<close> is single-threaded and cooperative: between two \<^verbatim>\<open>await\<close>s a fiber
  runs alone. The model is a labelled transition system. A state is the runner object
  together with what the language keeps for it: the control point at which every fiber is
  suspended, and which promises of waiters are resolved. A transition is one run of the
  code between two suspension points, or one call from outside (of the handle, or of a
  node body through its context). What a node body returns or throws is not the runner's
  to decide: it is part of the label.
\<close>

datatype RunnerStatus = Idle | Running | Completed | Cancelled | Failed

datatype promise_state = Pending | Resolved

record VisScheduledNode =
  s_nodeId :: string
  s_entityId :: string

text \<open>The \<open>resolve\<close> of a waiter is the promise it resolves.\<close>

record NodeWaiter =
  targetCount :: nat
  resolve :: nat

datatype entry_point = ViaExecute | ViaFastForward

text \<open>A call of \<^verbatim>\<open>_invokeNode\<close>: the node, the entry point chosen, and the context the
  node gets.\<close>

record invocation =
  inv_node :: VisGraphNode
  inv_entry :: entry_point
  inv_entityId :: string
  inv_inputs :: js_record

text \<open>
  Where a fiber is suspended. The first three are the \<^verbatim>\<open>await\<close>s of \<^verbatim>\<open>_runFiber\<close>; what
  the awaited async function has made of its synchronous part is kept with them (\<open>Inl\<close>: it
  has thrown, so the \<^verbatim>\<open>await\<close> will throw; \<open>Inr\<close>: the promises it waits for). \<open>Returned\<close>
  and \<open>Threw\<close>: the body is over and the handlers of \<^verbatim>\<open>_spawnFiber\<close> have not run yet.
  \<open>Settled\<close> remembers whether the body had thrown.
\<close>

datatype fiber_phase =
    Invoking invocation
  | AwaitingWait VisGraphNode VisNodeExecutionResult "vis_error + nat list"
  | AwaitingRoute VisGraphNode "vis_error + nat list"
  | Returned
  | Threw vis_error
  | Caught
  | Settled bool

record VisFiber =
  f_id :: nat
  f_queue :: "VisScheduledNode list"
  f_entityId :: string
  f_phase :: fiber_phase

text \<open>
  The runner. \<open>fibers\<close> is the \<^verbatim>\<open>Set\<close> of the live fiber promises; a fiber promise is the
  position of its fiber in \<open>fiberTable\<close>. \<open>waiters\<close> is a \<^verbatim>\<open>Map\<close> in insertion order.
  The last two fields are history: how often each node was invoked, and how often its
  invocation threw. No transition reads them.
\<close>

record VisGraphRunner =
  opt_entityId :: string
  run_scope :: VisScope
  run_blackboard :: VisBlackboard
  run_signal :: VisExecutionSignal
  fastForwardSet :: "string list"
  fastForwardRules :: "(string \<Rightarrow> string \<Rightarrow> bool) list"
  completionCounts :: "string \<rightharpoonup> nat"
  waiters :: "(string \<times> NodeWaiter list) list"
  run_status :: RunnerStatus
  fibers :: "nat list"
  completionPromise :: "promise_state option"
  resolveCompletion :: bool
  fiberCounter :: nat
  fiberTable :: "VisFiber list"
  resolvedPromises :: "nat list"
  promiseCounter :: nat
  invoked :: "string \<Rightarrow> nat"
  threw :: "string \<Rightarrow> nat"

datatype VisExecutionHandle = Handle

text \<open>The constructor: scope and blackboard come from the options or are new.\<close>

definition VisGraphRunner_new ::
    "string \<Rightarrow> VisScope option \<Rightarrow> VisBlackboard option \<Rightarrow> VisGraphRunner" where
  "VisGraphRunner_new entityId scope_opt blackboard_opt =
     \<lparr>opt_entityId = entityId,
      run_scope = (case scope_opt of None \<Rightarrow> Map.empty | Some s \<Rightarrow> s),
      run_blackboard = (case blackboard_opt of None \<Rightarrow> Map.empty | Some b \<Rightarrow> b),
      run_signal = \<lparr>cancelled = False, fastForward = False, reason = None\<rparr>,
      fastForwardSet = [], fastForwardRules = [],
      completionCounts = Map.empty, waiters = [],
      run_status = Idle, fibers = [], completionPromise = None, resolveCompletion = False,
      fiberCounter = 0, fiberTable = [], resolvedPromises = [], promiseCounter = 0,
      invoked = (\<lambda>_. 0), threw = (\<lambda>_. 0)\<rparr>"

subsection \<open>Completion counts and waiters\<close>

text \<open>\<^verbatim>\<open>this._completionCounts.get(nodeId) ?? 0\<close>.\<close>

definition count_of :: "VisGraphRunner \<Rightarrow> string \<Rightarrow> nat" where
  "count_of r nodeId = (case completionCounts r nodeId of None \<Rightarrow> 0 | Some c \<Rightarrow> c)"

definition waiters_of :: "VisGraphRunner \<Rightarrow> string \<Rightarrow> NodeWaiter list" where
  "waiters_of r nodeId = (case map_of (waiters r) nodeId of None \<Rightarrow> [] | Some ws \<Rightarrow> ws)"

text \<open>\<^verbatim>\<open>_waitForNode\<close>: \<open>None\<close> is the \<^verbatim>\<open>undefined\<close> it returns when there is nothing to wait
  for; otherwise a new promise, whose resolver is put in a waiter.\<close>

definition waitForNode :: "string \<Rightarrow> bool \<Rightarrow> VisGraphRunner \<Rightarrow> nat option \<times> VisGraphRunner" where
  "waitForNode nodeId waitForNext r =
     (let completed = count_of r nodeId;
          target = (if waitForNext then completed + 1 else 1)
      in if \<not> waitForNext \<and> completed \<ge> target then (None, r)
         else if waitForNext \<and> completed \<ge> target then (None, r)
         else
           let p = promiseCounter r;
               waiter = \<lparr>targetCount = target, resolve = p\<rparr>;
               ws = (case map_of (waiters r) nodeId of
                       None \<Rightarrow> AList.update nodeId [] (waiters r)
                     | Some _ \<Rightarrow> waiters r);
               old = (case map_of ws nodeId of None \<Rightarrow> [] | Some l \<Rightarrow> l)
           in (Some p, r\<lparr>waiters := AList.update nodeId (old @ [waiter]) ws,
                          promiseCounter := p + 1\<rparr>))"

text \<open>\<^verbatim>\<open>_waitForNodes\<close> up to its \<^verbatim>\<open>await\<close>. A missing node throws after the waiters of
  the ids before it have been recorded.\<close>

fun waitForNodes ::
    "VisGraph \<Rightarrow> bool \<Rightarrow> string list \<Rightarrow> nat list \<Rightarrow> VisGraphRunner
       \<Rightarrow> VisGraphRunner \<times> (vis_error + nat list)" where
  "waitForNodes g waitForNext [] promises r = (r, Inr promises)"
| "waitForNodes g waitForNext (nodeId # nodeIds) promises r =
     (case getNode g nodeId of
        Inl e \<Rightarrow> (r, Inl e)
      | Inr _ \<Rightarrow>
          (case waitForNode nodeId waitForNext r of
             (None, r') \<Rightarrow> waitForNodes g waitForNext nodeIds promises r'
           | (Some p, r') \<Rightarrow> waitForNodes g waitForNext nodeIds (promises @ [p]) r'))"

definition markNodeCompleted :: "string \<Rightarrow> VisGraphRunner \<Rightarrow> VisGraphRunner" where
  "markNodeCompleted nodeId r =
     (let nextCount = count_of r nodeId + 1;
          r1 = r\<lparr>completionCounts := (completionCounts r)(nodeId \<mapsto> nextCount)\<rparr>
      in case map_of (waiters r1) nodeId of
           None \<Rightarrow> r1
         | Some ws \<Rightarrow>
             if ws = [] then r1
             else
               let woken = filter (\<lambda>w. nextCount \<ge> targetCount w) ws;
                   rest = filter (\<lambda>w. \<not> nextCount \<ge> targetCount w) ws;
                   r2 = r1\<lparr>resolvedPromises := resolvedPromises r1 @ map resolve woken,
                           waiters := AList.update nodeId rest (waiters r1)\<rparr>
               in if rest = [] then r2\<lparr>waiters := AList.delete nodeId (waiters r2)\<rparr> else r2)"

definition resolveAllWaiters :: "VisGraphRunner \<Rightarrow> VisGraphRunner" where
  "resolveAllWaiters r =
     r\<lparr>resolvedPromises := resolvedPromises r @ concat (map (\<lambda>(_, ws). map resolve ws) (waiters r)),
       waiters := []\<rparr>"

subsection \<open>Signal, finish, cancel\<close>

text \<open>\<^verbatim>\<open>VisExecutionSignal.cancel\<close> together with the listener the runner's constructor
  subscribes (the listeners of node bodies are outside the runner).\<close>

definition signal_cancel :: "string option \<Rightarrow> VisGraphRunner \<Rightarrow> VisGraphRunner" where
  "signal_cancel why r =
     (if cancelled (run_signal r) then r
      else resolveAllWaiters (r\<lparr>run_signal := (run_signal r)\<lparr>cancelled := True, reason := why\<rparr>\<rparr>))"

definition signal_requestFastForward :: "string option \<Rightarrow> VisGraphRunner \<Rightarrow> VisGraphRunner" where
  "signal_requestFastForward why r =
     (if fastForward (run_signal r) then r
      else r\<lparr>run_signal := (run_signal r)\<lparr>fastForward := True, reason := why\<rparr>\<rparr>)"

definition resolve_completion :: "VisGraphRunner \<Rightarrow> VisGraphRunner" where
  "resolve_completion r =
     (if resolveCompletion r
      then r\<lparr>completionPromise := Some Resolved, resolveCompletion := False\<rparr>
      else r)"

definition finish :: "RunnerStatus \<Rightarrow> VisGraphRunner \<Rightarrow> VisGraphRunner" where
  "finish state r =
     (if run_status r = Completed \<or> run_status r = Failed \<or> run_status r = Cancelled
      then resolve_completion r
      else resolve_completion (r\<lparr>run_status := state\<rparr>))"

definition cancel :: "string option \<Rightarrow> VisGraphRunner \<Rightarrow> VisGraphRunner" where
  "cancel why r =
     (if run_status r = Cancelled then r
      else let r1 = signal_cancel why r
           in if fibers r1 = [] then finish Cancelled r1 else r1)"

subsection \<open>Invoking a node\<close>

definition shouldFastForward :: "VisGraphRunner \<Rightarrow> string \<Rightarrow> string \<Rightarrow> bool" where
  "shouldFastForward r nodeId nodeType =
     (if nodeId \<in> set (fastForwardSet r) then True
      else list_ex (\<lambda>rule. rule nodeId nodeType) (fastForwardRules r))"

definition resolveEntityId :: "VisGraph \<Rightarrow> string \<Rightarrow> string \<Rightarrow> vis_error + string" where
  "resolveEntityId g nodeId fallback =
     (case getNode g nodeId of
        Inl e \<Rightarrow> Inl e
      | Inr node \<Rightarrow> Inr (case gn_entityId node of None \<Rightarrow> fallback | Some e \<Rightarrow> e))"

definition set_phase :: "nat \<Rightarrow> fiber_phase \<Rightarrow> VisGraphRunner \<Rightarrow> VisGraphRunner" where
  "set_phase h ph r = r\<lparr>fiberTable := (fiberTable r)[h := (fiberTable r ! h)\<lparr>f_phase := ph\<rparr>]\<rparr>"

text \<open>
  \<^verbatim>\<open>_runFiber\<close> from the test of its loop to its first \<^verbatim>\<open>await\<close>, for the fiber at
  position \<open>h < length (fiberTable r)\<close>: either the loop is over and the body returns, or the
  next node is taken from the queue and invoked (the entity id of a queue entry is never
  nullish, so \<^verbatim>\<open>scheduled.entityId ?? ...\<close> is \<^verbatim>\<open>scheduled.entityId\<close>), or the lookup of the
  node throws.
\<close>

definition runFiber_loop :: "VisGraph \<Rightarrow> nat \<Rightarrow> VisGraphRunner \<Rightarrow> VisGraphRunner" where
  "runFiber_loop g h r =
     (let fiber = fiberTable r ! h
      in if \<not> cancelled (run_signal r) \<and> f_queue fiber \<noteq> [] then
           (case f_queue fiber of
              [] \<Rightarrow> set_phase h Returned r
            | scheduled # rest \<Rightarrow>
                let r1 = r\<lparr>fiberTable := (fiberTable r)[h := fiber\<lparr>f_queue := rest\<rparr>]\<rparr>
                in (case getNode g (s_nodeId scheduled) of
                      Inl e \<Rightarrow> set_phase h (Threw e) r1
                    | Inr graphNode \<Rightarrow>
                        (case buildInputs g (gn_id graphNode) (run_scope r1) of
                           Inl e \<Rightarrow> set_phase h (Threw e) r1
                         | Inr inputs \<Rightarrow>
                             let entry = (if shouldFastForward r1 (gn_id graphNode) (gn_type graphNode)
                                          then ViaFastForward else ViaExecute);
                                 call = \<lparr>inv_node = graphNode, inv_entry = entry,
                                        inv_entityId = s_entityId scheduled, inv_inputs = inputs\<rparr>
                             in set_phase h (Invoking call)
                                  (r1\<lparr>invoked := (invoked r1)
                                         (gn_id graphNode := invoked r1 (gn_id graphNode) + 1)\<rparr>))))
         else set_phase h Returned r)"

text \<open>\<^verbatim>\<open>_spawnFiber\<close>: the new fiber runs at once up to its first \<^verbatim>\<open>await\<close>, then its
  promise joins the live set.\<close>

definition spawnFiber :: "VisGraph \<Rightarrow> string \<Rightarrow> string \<Rightarrow> VisGraphRunner \<Rightarrow> nat \<times> VisGraphRunner" where
  "spawnFiber g nodeId entityId r =
     (let c = fiberCounter r + 1;
          fiber = \<lparr>f_id = c, f_queue = [\<lparr>s_nodeId = nodeId, s_entityId = entityId\<rparr>],
                   f_entityId = entityId, f_phase = Returned\<rparr>;
          h = length (fiberTable r);
          r1 = runFiber_loop g h (r\<lparr>fiberCounter := c, fiberTable := fiberTable r @ [fiber]\<rparr>)
      in (h, r1\<lparr>fibers := fibers r1 @ [h]\<rparr>))"

subsection \<open>Outputs and transitions\<close>

definition applyOutputs :: "string \<Rightarrow> (string \<times> jsval) list option \<Rightarrow> VisScope \<Rightarrow> VisScope" where
  "applyOutputs nodeId outputs sc =
     (case outputs of
        None \<Rightarrow> sc
      | Some entries \<Rightarrow> fold (\<lambda>(pinId, v) s. VisScope_set nodeId pinId v s) entries sc)"

definition defaultTransitions :: "VisGraphNode \<Rightarrow> VisFlowTransition list" where
  "defaultTransitions graphNode =
     (case def_defaultOutput (gn_definition graphNode) of
        None \<Rightarrow> []
      | Some defaultOutput \<Rightarrow>
          if defaultOutput = [] then []
          else [\<lparr>t_pinId = defaultOutput, t_strategy = Some Sequential,
                 t_awaitCompletion = None, t_groupId = None\<rparr>])"

definition normalizeTransitions ::
    "VisGraphNode \<Rightarrow> VisFlowTransition list option \<Rightarrow> VisFlowTransition list" where
  "normalizeTransitions graphNode transitions =
     (let list = (case transitions of
                    None \<Rightarrow> defaultTransitions graphNode
                  | Some ts \<Rightarrow> if ts \<noteq> [] then ts else defaultTransitions graphNode)
      in map (\<lambda>t. case t_strategy t of
                     Some _ \<Rightarrow> t
                   | None \<Rightarrow>
                       t\<lparr>t_strategy :=
                           Some (case find (\<lambda>p. pin_direction p = PinOut \<and> pin_id p = t_pinId t)
                                        (def_pins (gn_definition graphNode)) of
                                   None \<Rightarrow> Sequential
                                 | Some pin \<Rightarrow>
                                     (case pin_strategy pin of None \<Rightarrow> Sequential | Some s \<Rightarrow> s))\<rparr>)
           list)"

text \<open>The targets of a parallel transition: each gets a new fiber; \<open>acc\<close> collects the
  promises to await.\<close>

fun route_parallel ::
    "VisGraph \<Rightarrow> string \<Rightarrow> bool \<Rightarrow> string list \<Rightarrow> nat list \<Rightarrow> VisGraphRunner
       \<Rightarrow> VisGraphRunner \<times> (vis_error + nat list)" where
  "route_parallel g fallback await [] acc r = (r, Inr acc)"
| "route_parallel g fallback await (target # targets) acc r =
     (case resolveEntityId g target fallback of
        Inl e \<Rightarrow> (r, Inl e)
      | Inr entityId \<Rightarrow>
          (case spawnFiber g target entityId r of
             (h, r') \<Rightarrow>
               route_parallel g fallback await targets (if await then acc @ [h] else acc) r'))"

fun route_sequential ::
    "VisGraph \<Rightarrow> string \<Rightarrow> string list \<Rightarrow> VisScheduledNode list
       \<Rightarrow> vis_error + VisScheduledNode list" where
  "route_sequential g fallback [] acc = Inr acc"
| "route_sequential g fallback (target # targets) acc =
     (case resolveEntityId g target fallback of
        Inl e \<Rightarrow> Inl e
      | Inr entityId \<Rightarrow>
          route_sequential g fallback targets (acc @ [\<lparr>s_nodeId = target, s_entityId = entityId\<rparr>]))"

fun route_loop ::
    "VisGraph \<Rightarrow> string \<Rightarrow> VisGraphNode \<Rightarrow> VisFlowTransition list
       \<Rightarrow> VisScheduledNode list \<Rightarrow> nat list \<Rightarrow> VisGraphRunner
       \<Rightarrow> VisGraphRunner \<times> (vis_error + VisScheduledNode list \<times> nat list)" where
  "route_loop g fallback graphNode [] sequential awaitables r = (r, Inr (sequential, awaitables))"
| "route_loop g fallback graphNode (t # ts) sequential awaitables r =
     (let targets = getNext g (gn_id graphNode) (t_pinId t)
      in if targets = [] then route_loop g fallback graphNode ts sequential awaitables r
         else if t_strategy t = Some Parallel then
           (case route_parallel g fallback (t_awaitCompletion t \<noteq> Some False) targets awaitables r of
              (r', Inl e) \<Rightarrow> (r', Inl e)
            | (r', Inr awaitables') \<Rightarrow> route_loop g fallback graphNode ts sequential awaitables' r')
         else
           (case route_sequential g fallback targets sequential of
              Inl e \<Rightarrow> (r, Inl e)
            | Inr sequential' \<Rightarrow> route_loop g fallback graphNode ts sequential' awaitables r))"

text \<open>\<^verbatim>\<open>_routeTransitions\<close> up to its \<^verbatim>\<open>await\<close>, for the fiber at position \<open>h\<close>.\<close>

definition routeTransitions ::
    "VisGraph \<Rightarrow> nat \<Rightarrow> VisGraphNode \<Rightarrow> VisFlowTransition list option \<Rightarrow> VisGraphRunner
       \<Rightarrow> VisGraphRunner \<times> (vis_error + nat list)" where
  "routeTransitions g h graphNode transitions r =
     (let list = normalizeTransitions graphNode transitions
      in case route_loop g (f_entityId (fiberTable r ! h)) graphNode list [] [] r of
           (r', Inl e) \<Rightarrow> (r', Inl e)
         | (r', Inr (sequential, awaitables)) \<Rightarrow>
             (if sequential \<noteq> []
              then r'\<lparr>fiberTable := (fiberTable r')
                        [h := (fiberTable r' ! h)\<lparr>f_queue := sequential @ f_queue (fiberTable r' ! h)\<rparr>]\<rparr>
              else r',
              Inr awaitables))"

subsection \<open>The body of a fiber, from one suspension to the next\<close>

text \<open>The \<^verbatim>\<open>try\<close> block after the wait: outputs, then transitions; the fiber is suspended
  in \<^verbatim>\<open>await this._routeTransitions(...)\<close>.\<close>

definition apply_and_route ::
    "VisGraph \<Rightarrow> nat \<Rightarrow> VisGraphNode \<Rightarrow> VisNodeExecutionResult \<Rightarrow> VisGraphRunner \<Rightarrow> VisGraphRunner" where
  "apply_and_route g h graphNode result r =
     (let r1 = r\<lparr>run_scope := applyOutputs (gn_id graphNode) (r_outputs result) (run_scope r)\<rparr>
      in case routeTransitions g h graphNode (r_transitions result) r1 of
           (r2, outcome) \<Rightarrow> set_phase h (AwaitingRoute graphNode outcome) r2)"

text \<open>The node's promise is fulfilled with \<open>result\<close>: the \<^verbatim>\<open>try\<close> block starts.\<close>

definition node_returned ::
    "VisGraph \<Rightarrow> nat \<Rightarrow> VisGraphNode \<Rightarrow> VisNodeExecutionResult \<Rightarrow> VisGraphRunner \<Rightarrow> VisGraphRunner" where
  "node_returned g h graphNode result r =
     (case r_waitFor result of
        Some (nodeId # nodeIds) \<Rightarrow>
          (case waitForNodes g (case r_waitForNext result of None \<Rightarrow> False | Some b \<Rightarrow> b)
                  (nodeId # nodeIds) [] r of
             (r1, outcome) \<Rightarrow> set_phase h (AwaitingWait graphNode result outcome) r1)
      | _ \<Rightarrow> apply_and_route g h graphNode result r)"

text \<open>The node's promise is rejected: the \<^verbatim>\<open>await\<close> throws outside the \<^verbatim>\<open>try\<close>
  block, so the body ends without \<^verbatim>\<open>_markNodeCompleted\<close>.\<close>

definition node_threw :: "nat \<Rightarrow> VisGraphNode \<Rightarrow> string \<Rightarrow> VisGraphRunner \<Rightarrow> VisGraphRunner" where
  "node_threw h graphNode msg r =
     set_phase h (Threw (Thrown msg))
       (r\<lparr>threw := (threw r)(gn_id graphNode := threw r (gn_id graphNode) + 1)\<rparr>)"

text \<open>\<^verbatim>\<open>await this._waitForNodes(...)\<close> is over: it throws, or the signal is cancelled and
  the loop is left, or the block goes on; \<^verbatim>\<open>finally\<close> marks the node in the first two
  cases.\<close>

definition wait_resumed ::
    "VisGraph \<Rightarrow> nat \<Rightarrow> VisGraphNode \<Rightarrow> VisNodeExecutionResult \<Rightarrow> vis_error + nat list
       \<Rightarrow> VisGraphRunner \<Rightarrow> VisGraphRunner" where
  "wait_resumed g h graphNode result outcome r =
     (case outcome of
        Inl e \<Rightarrow> set_phase h (Threw e) (markNodeCompleted (gn_id graphNode) r)
      | Inr _ \<Rightarrow>
          if cancelled (run_signal r)
          then set_phase h Returned (markNodeCompleted (gn_id graphNode) r)
          else apply_and_route g h graphNode result r)"

text \<open>\<^verbatim>\<open>await this._routeTransitions(...)\<close> is over: \<^verbatim>\<open>finally\<close> marks the node; then
  the \<^verbatim>\<open>await\<close> throws or the loop goes round.\<close>

definition route_resumed ::
    "VisGraph \<Rightarrow> nat \<Rightarrow> VisGraphNode \<Rightarrow> vis_error + nat list \<Rightarrow> VisGraphRunner \<Rightarrow> VisGraphRunner" where
  "route_resumed g h graphNode outcome r =
     (case outcome of
        Inl e \<Rightarrow> set_phase h (Threw e) (markNodeCompleted (gn_id graphNode) r)
      | Inr _ \<Rightarrow> runFiber_loop g h (markNodeCompleted (gn_id graphNode) r))"

fun error_text :: "vis_error \<Rightarrow> string" where
  "error_text (NodeTypeNotRegistered t) = ''Error: Node type '' @ t @ '' is not registered.''"
| "error_text (MissingNode n) = ''Error: Missing node '' @ n @ '' in graph.''"
| "error_text (Thrown msg) = msg"

text \<open>The \<^verbatim>\<open>.catch\<close> handler of \<^verbatim>\<open>_spawnFiber\<close>.\<close>

definition catch_handler :: "nat \<Rightarrow> vis_error \<Rightarrow> VisGraphRunner \<Rightarrow> VisGraphRunner" where
  "catch_handler h e r =
     set_phase h Caught (signal_cancel (Some (error_text e)) (r\<lparr>run_status := Failed\<rparr>))"

text \<open>The \<^verbatim>\<open>.finally\<close> handler of \<^verbatim>\<open>_spawnFiber\<close>.\<close>

definition finally_handler :: "nat \<Rightarrow> bool \<Rightarrow> VisGraphRunner \<Rightarrow> VisGraphRunner" where
  "finally_handler h had_thrown r =
     (let r1 = set_phase h (Settled had_thrown) (r\<lparr>fibers := removeAll h (fibers r)\<rparr>)
      in if fibers r1 = [] then
           finish (if cancelled (run_signal r1) then Cancelled
                   else if run_status r1 = Failed then Failed
                   else Completed) r1
         else r1)"

subsection \<open>\<^verbatim>\<open>run\<close>\<close>

fun spawn_roots :: "VisGraph \<Rightarrow> string list \<Rightarrow> VisGraphRunner \<Rightarrow> VisGraphRunner \<times> (vis_error + unit)" where
  "spawn_roots g [] r = (r, Inr ())"
| "spawn_roots g (rootId # rootIds) r =
     (case resolveEntityId g rootId (opt_entityId r) of
        Inl e \<Rightarrow> (r, Inl e)
      | Inr entityId \<Rightarrow> spawn_roots g rootIds (snd (spawnFiber g rootId entityId r)))"

definition run :: "VisGraph \<Rightarrow> VisGraphRunner \<Rightarrow> VisGraphRunner \<times> (vis_error + VisExecutionHandle)" where
  "run g r =
     (if run_status r \<noteq> Idle then (r, Inr Handle)
      else
        (case spawn_roots g (g_roots g)
                (r\<lparr>run_status := Running, completionPromise := Some Pending,
                   resolveCompletion := True\<rparr>) of
           (r1, Inl e) \<Rightarrow> (r1, Inl e)
         | (r1, Inr _) \<Rightarrow> (if fibers r1 = [] then finish Completed r1 else r1, Inr Handle)))"

subsection \<open>Transitions\<close>

text \<open>
  The labels. The first six are the resumptions of a fiber and the handlers of its
  promise; a resumption is enabled only when what the fiber awaits has happened. The
  others are calls from outside: of the handle, and of node bodies through their context
  (blackboard, scope, signal).
\<close>

datatype event =
    NodeReturned nat VisNodeExecutionResult
  | NodeThrew nat string
  | WaitResumed nat
  | RouteResumed nat
  | CatchHandler nat
  | FinallyHandler nat
  | CallRun
  | CallCancel "string option"
  | CallFastForwardNode string
  | CallFastForwardWhere "string \<Rightarrow> string \<Rightarrow> bool"
  | BlackboardSet string jsval
  | BlackboardDelete string
  | ScopeSet string string jsval
  | SignalCancel "string option"
  | SignalFastForward "string option"

definition all_resolved :: "VisGraphRunner \<Rightarrow> nat list \<Rightarrow> bool" where
  "all_resolved r ps = list_all (\<lambda>p. p \<in> set (resolvedPromises r)) ps"

fun is_settled :: "fiber_phase \<Rightarrow> bool" where
  "is_settled (Settled _) = True"
| "is_settled _ = False"

definition all_settled :: "VisGraphRunner \<Rightarrow> nat list \<Rightarrow> bool" where
  "all_settled r hs =
     list_all (\<lambda>h. h < length (fiberTable r) \<and> is_settled (f_phase (fiberTable r ! h))) hs"

fun awaited_done :: "VisGraphRunner \<Rightarrow> (VisGraphRunner \<Rightarrow> nat list \<Rightarrow> bool) \<Rightarrow> vis_error + nat list \<Rightarrow> bool" where
  "awaited_done r ready (Inl e) = True"
| "awaited_done r ready (Inr ps) = ready r ps"

text \<open>The phase of the fiber at position \<open>h\<close>, when there is one.\<close>

definition phase_at :: "VisGraphRunner \<Rightarrow> nat \<Rightarrow> fiber_phase option" where
  "phase_at r h = (if h < length (fiberTable r) then Some (f_phase (fiberTable r ! h)) else None)"

fun step :: "VisGraph \<Rightarrow> event \<Rightarrow> VisGraphRunner \<Rightarrow> VisGraphRunner option" where
  "step g (NodeReturned h result) r =
     (case phase_at r h of
        Some (Invoking call) \<Rightarrow> Some (node_returned g h (inv_node call) result r)
      | _ \<Rightarrow> None)"
| "step g (NodeThrew h msg) r =
     (case phase_at r h of
        Some (Invoking call) \<Rightarrow> Some (node_threw h (inv_node call) msg r)
      | _ \<Rightarrow> None)"
| "step g (WaitResumed h) r =
     (case phase_at r h of
        Some (AwaitingWait graphNode result outcome) \<Rightarrow>
          if awaited_done r all_resolved outcome
          then Some (wait_resumed g h graphNode result outcome r) else None
      | _ \<Rightarrow> None)"
| "step g (RouteResumed h) r =
     (case phase_at r h of
        Some (AwaitingRoute graphNode outcome) \<Rightarrow>
          if awaited_done r all_settled outcome
          then Some (route_resumed g h graphNode outcome r) else None
      | _ \<Rightarrow> None)"
| "step g (CatchHandler h) r =
     (case phase_at r h of
        Some (Threw e) \<Rightarrow> Some (catch_handler h e r)
      | _ \<Rightarrow> None)"
| "step g (FinallyHandler h) r =
     (case phase_at r h of
        Some Returned \<Rightarrow> Some (finally_handler h False r)
      | Some Caught \<Rightarrow> Some (finally_handler h True r)
      | _ \<Rightarrow> None)"
| "step g CallRun r = Some (fst (run g r))"
| "step g (CallCancel why) r = Some (cancel why r)"
| "step g (CallFastForwardNode nodeId) r =
     Some (r\<lparr>fastForwardSet := List.insert nodeId (fastForwardSet r)\<rparr>)"
| "step g (CallFastForwardWhere rule) r =
     Some (r\<lparr>fastForwardRules := fastForwardRules r @ [rule]\<rparr>)"
| "step g (BlackboardSet k v) r = Some (r\<lparr>run_blackboard := setVariable k v (run_blackboard r)\<rparr>)"
| "step g (BlackboardDelete k) r = Some (r\<lparr>run_blackboard := clearVariable k (run_blackboard r)\<rparr>)"
| "step g (ScopeSet n p v) r = Some (r\<lparr>run_scope := VisScope_set n p v (run_scope r)\<rparr>)"
| "step g (SignalCancel why) r = Some (signal_cancel why r)"
| "step g (SignalFastForward why) r = Some (signal_requestFastForward why r)"

text \<open>A run of the runner: the transitions of a list of labels, one after the other;
  \<open>None\<close> when a label is not enabled where it stands.\<close>

fun steps :: "VisGraph \<Rightarrow> event list \<Rightarrow> VisGraphRunner \<Rightarrow> VisGraphRunner option" where
  "steps g [] r = Some r"
| "steps g (ev # evs) r = (case step g ev r of None \<Rightarrow> None | Some r' \<Rightarrow> steps g evs r')"

subsection \<open>Counting invocations\<close>

definition phases :: "VisGraphRunner \<Rightarrow> fiber_phase list" where
  "phases r = map f_phase (fiberTable r)"

fun phase_node :: "fiber_phase \<Rightarrow> string option" where
  "phase_node (Invoking call) = Some (gn_id (inv_node call))"
| "phase_node (AwaitingWait graphNode _ _) = Some (gn_id graphNode)"
| "phase_node (AwaitingRoute graphNode _) = Some (gn_id graphNode)"
| "phase_node _ = None"

definition on_node :: "string \<Rightarrow> fiber_phase list \<Rightarrow> nat" where
  "on_node n phs = length (filter (\<lambda>ph. phase_node ph = Some n) phs)"

text \<open>The fibers that have invoked node \<open>n\<close> and not yet come to the end of its
  processing.\<close>

definition in_flight :: "VisGraphRunner \<Rightarrow> string \<Rightarrow> nat" where
  "in_flight r n = on_node n (phases r)"

text \<open>Every fiber is settled: its body is over and its handlers have run.\<close>

definition quiescent :: "VisGraphRunner \<Rightarrow> bool" where
  "quiescent r = list_all is_settled (phases r)"

fun has_thrown :: "fiber_phase \<Rightarrow> bool" where
  "has_thrown (Threw _) = True"
| "has_thrown Caught = True"
| "has_thrown (Settled b) = b"
| "has_thrown _ = False"

text \<open>Some fiber's body has thrown.\<close>

definition some_fiber_threw :: "VisGraphRunner \<Rightarrow> bool" where
  "some_fiber_threw r = list_ex has_thrown (phases r)"

text \<open>The phases in which \<^verbatim>\<open>_runFiber\<close> reaches its first suspension or its end.\<close>

fun fresh_phase :: "fiber_phase \<Rightarrow> bool" where
  "fresh_phase (Invoking _) = True"
| "fresh_phase Returned = True"
| "fresh_phase (Threw _) = True"
| "fresh_phase _ = False"

text \<open>What no spawn changes.\<close>

definition base_of :: "VisGraphRunner \<Rightarrow>
    RunnerStatus \<times> promise_state option \<times> bool \<times> (string \<rightharpoonup> nat) \<times> (string \<Rightarrow> nat)" where
  "base_of r =
     (run_status r, completionPromise r, resolveCompletion r, completionCounts r, threw r)"

text \<open>\<open>r'\<close> comes from \<open>r\<close> by spawning fibers: each new fiber is live, has run to its
  first suspension, and has invoked a node if it is suspended in one.\<close>

definition spawned :: "VisGraphRunner \<Rightarrow> VisGraphRunner \<Rightarrow> bool" where
  "spawned r r' \<longleftrightarrow>
     (\<exists>new. list_all fresh_phase new \<and>
            phases r' = phases r @ new \<and>
            fibers r' = fibers r @ [length (phases r)..<length (phases r) + length new] \<and>
            (\<forall>n. invoked r' n = invoked r n + on_node n new) \<and>
            base_of r' = base_of r)"

text \<open>
  The invariant behind the terminal status. Before \<^verbatim>\<open>run\<close> there is no fiber; a fiber
  that is not settled is in the live set; once the \<^verbatim>\<open>.catch\<close> handler of a fiber has run
  the status is \<open>Failed\<close>; the resolver of the completion promise is there as long as the
  promise is pending; and when a fiber has settled and none is live, the promise is
  resolved.
\<close>

definition live_invariant :: "VisGraphRunner \<Rightarrow> bool" where
  "live_invariant r \<longleftrightarrow>
     (run_status r = Idle \<longrightarrow> phases r = []) \<and>
     (\<forall>h < length (phases r). is_settled (phases r ! h) \<or> h \<in> set (fibers r)) \<and>
     (Caught \<in> set (phases r) \<or> Settled True \<in> set (phases r) \<longrightarrow> run_status r = Failed) \<and>
     (completionPromise r = Some Pending \<longrightarrow> resolveCompletion r) \<and>
     (phases r \<noteq> [] \<longrightarrow> completionPromise r \<noteq> None)"

definition failure_invariant :: "VisGraphRunner \<Rightarrow> bool" where
  "failure_invariant r \<longleftrightarrow>
     live_invariant r \<and>
     ((\<exists>ph \<in> set (phases r). is_settled ph) \<and> fibers r = [] \<longrightarrow>
        completionPromise r = Some Resolved)"

text \<open>The invariant of the completion counts: every invocation of a node has been
  counted as completed, or has thrown, or is still being processed by a fiber.\<close>

definition tally_invariant :: "VisGraphRunner \<Rightarrow> bool" where
  "tally_invariant r \<longleftrightarrow> (\<forall>n. invoked r n = count_of r n + threw r n + in_flight r n)"

subsection \<open>The scope as a log of writes\<close>

text \<open>The writes of a sequence of \<^verbatim>\<open>_applyOutputs\<close> calls, as (key, value) pairs in the
  order they are made.\<close>

definition scope_writes :: "(string \<times> (string \<times> jsval) list option) list \<Rightarrow> (string \<times> jsval) list" where
  "scope_writes calls =
     concat (map (\<lambda>(nodeId, outputs).
                    case outputs of
                      None \<Rightarrow> []
                    | Some entries \<Rightarrow> map (\<lambda>(pinId, v). (makeScopeKey nodeId pinId, v)) entries)
               calls)"

definition apply_calls :: "(string \<times> (string \<times> jsval) list option) list \<Rightarrow> VisScope \<Rightarrow> VisScope" where
  "apply_calls calls sc = fold (\<lambda>(nodeId, outputs) s. applyOutputs nodeId outputs s) calls sc"

text \<open>The keys the specification gives the snapshot: those under which a value other
  than \<^verbatim>\<open>undefined\<close> was written.\<close>

definition defined_keys :: "(string \<times> (string \<times> jsval) list option) list \<Rightarrow> string set" where
  "defined_keys calls = fst ` {w \<in> set (scope_writes calls). snd w \<noteq> JUndefined}"

subsection \<open>Recording a waiter\<close>

text \<open>What the specification calls recording a waiter for a node: the waiter joins the
  node's set, and its promise is a new one.\<close>

definition record_waiter :: "string \<Rightarrow> NodeWaiter \<Rightarrow> VisGraphRunner \<Rightarrow> VisGraphRunner" where
  "record_waiter nodeId w r =
     r\<lparr>waiters := AList.update nodeId (waiters_of r nodeId @ [w]) (waiters r),
       promiseCounter := promiseCounter r + 1\<rparr>"

text \<open>What recording and waking waiters leaves alone.\<close>

definition shell :: "VisGraphRunner \<Rightarrow>
    VisFiber list \<times> nat list \<times> (string \<Rightarrow> nat) \<times> (string \<Rightarrow> nat) \<times> RunnerStatus \<times>
    promise_state option \<times> bool \<times> VisExecutionSignal \<times> (string \<rightharpoonup> nat)" where
  "shell r =
     (fiberTable r, fibers r, invoked r, threw r, run_status r, completionPromise r,
      resolveCompletion r, run_signal r, completionCounts r)"

section \<open>Example assets and nodes\<close>

definition plain_definition :: VisNodeDefinition where
  "plain_definition =
     \<lparr>def_defaultOutput = Some ''next'',
      def_pins = [\<lparr>pin_direction = PinOut, pin_id = ''next'', pin_strategy = Some Sequential\<rparr>],
      def_parameters = [], def_ctor = Map.empty\<rparr>"

definition example_registry :: VisNodeRegistry where
  "example_registry = [''test.plain'' \<mapsto> plain_definition]"

definition plain_node :: "string \<Rightarrow> VisSerializedNode" where
  "plain_node i = \<lparr>sn_id = i, sn_type = ''test.plain'', sn_params = None, sn_inputs = None,
                   sn_entityId = None\<rparr>"

definition connect :: "connection_kind \<Rightarrow> string \<Rightarrow> string \<Rightarrow> string \<Rightarrow> string \<Rightarrow> VisSerializedConnection" where
  "connect k n p n' p' =
     \<lparr>c_kind = k, c_from = \<lparr>ref_nodeId = n, ref_pinId = p\<rparr>,
      c_to = \<lparr>ref_nodeId = n', ref_pinId = p'\<rparr>\<rparr>"

text \<open>Two nodes joined by one data connection, no root given.\<close>

definition data_only_asset :: VisGraphAsset where
  "data_only_asset =
     \<lparr>a_id = ''g'', a_name = ''data only'', a_root = NoRoot,
      a_nodes = [plain_node ''A'', plain_node ''B''],
      a_connections = Some [connect DataKind ''A'' ''v'' ''B'' ''x'']\<rparr>"

text \<open>A chain \<open>A \<rightarrow> B\<close> by flow, with \<open>C\<close> fed by data from \<open>A\<close> and \<open>B\<close>.\<close>

definition chain_asset :: VisGraphAsset where
  "chain_asset =
     \<lparr>a_id = ''g'', a_name = ''chain'', a_root = NoRoot,
      a_nodes = [plain_node ''A'', plain_node ''B'',
                 (plain_node ''C'')\<lparr>sn_inputs := Some [''x'' \<mapsto> JNum (JFin 5)]\<rparr>],
      a_connections = Some [connect FlowKind ''A'' ''next'' ''B'' ''flow'',
                            connect DataKind ''A'' ''v'' ''C'' ''x'',
                            connect DataKind ''B'' ''v'' ''C'' ''x'']\<rparr>"






text \<open>A single node \<open>A\<close>; and the chain asset hydrated.\<close>

definition single_asset :: VisGraphAsset where
  "single_asset =
     \<lparr>a_id = ''g'', a_name = ''single'', a_root = NoRoot,
      a_nodes = [plain_node ''A''], a_connections = None\<rparr>"

definition single_graph :: VisGraph where
  "single_graph = projr (fromAsset example_registry single_asset)"

definition chain_graph :: VisGraph where
  "chain_graph = projr (fromAsset example_registry chain_asset)"

definition fresh_runner :: VisGraphRunner where
  "fresh_runner = VisGraphRunner_new ''entity'' None None"

text \<open>The result of a node that emits \<open>v\<close> and leaves the transitions to the default
  output.\<close>

definition emits :: "jsval \<Rightarrow> VisNodeExecutionResult" where
  "emits v = VisNodeResult_success (Some [(''v'', v)]) None"

text \<open>Node \<open>A\<close> is invoked and throws; the handlers of the fiber run.\<close>

definition throwing_run :: "event list" where
  "throwing_run = [CallRun, NodeThrew 0 ''boom'', CatchHandler 0, FinallyHandler 0]"

text \<open>The chain runs to its end: \<open>A\<close> then \<open>B\<close> in one fiber.\<close>

definition chain_run :: "event list" where
  "chain_run =
     [CallRun, NodeReturned 0 (emits (JStr ''A'')), RouteResumed 0,
      NodeReturned 0 (emits (JStr ''B'')), RouteResumed 0, FinallyHandler 0]"

section \<open>Hydration: roots and inputs\<close>

lemma set_fold_insert:
  "set (fold (\<lambda>c acc. List.insert (f c) acc) cs acc) = f ` set cs \<union> set acc"
  by (induction cs arbitrary: acc) auto

lemma computedRoots_eq: "computedRoots asset = roots_without_inbound asset"
  by (simp add: computedRoots_def roots_without_inbound_def connection_targets_def
      set_fold_insert)

lemma hydrateNodes_frame:
  "hydrateNodes reg ns g = Inr g' \<Longrightarrow>
     g_roots g' = g_roots g \<and> g_dataMap g' = g_dataMap g \<and> g_flowMap g' = g_flowMap g"
  by (induction ns arbitrary: g) (auto simp: Let_def split: option.splits)

lemma hydrateConnections_frame:
  "g_roots (hydrateConnections cs g) = g_roots g \<and>
   g_nodes (hydrateConnections cs g) = g_nodes g"
  unfolding hydrateConnections_def
  by (induction cs arbitrary: g) (auto simp: addFlowConnection_def addDataConnection_def)

lemma fromAsset_roots: "fromAsset reg asset = Inr g \<Longrightarrow> g_roots g = resolveRoots asset"
  by (auto simp: fromAsset_def Let_def hydrateConnections_frame
      split: sum.splits dest!: hydrateNodes_frame)

text \<open>
  Claim C2, as amended. When the asset gives no root, the roots of the hydrated graph are
  the asset's nodes, in asset order, that are the target of \<^emph>\<open>no connection at all\<close>
  (\<^verbatim>\<open>_resolveRoots\<close> adds the target of every connection to \<open>incoming\<close>, flow or data);
  when every node is a target, the roots are the first node alone, and none for an asset
  without nodes.
\<close>

theorem roots_computed_from_all_connections:
  assumes "a_root asset = NoRoot" and "fromAsset reg asset = Inr g"
  shows "g_roots g = roots_without_inbound asset"
  using assms by (simp add: fromAsset_roots resolveRoots_def computedRoots_eq)

text \<open>The chain asset: \<open>B\<close> is the target of a flow connection, \<open>C\<close> of two data
  connections, so \<open>A\<close> is the only root.\<close>

theorem roots_computed_witness:
  "a_root chain_asset = NoRoot \<and>
   fromAsset example_registry chain_asset = Inr (projr (fromAsset example_registry chain_asset)) \<and>
   g_roots (projr (fromAsset example_registry chain_asset)) = [''A'']"
proof -
  have r: "a_root chain_asset = NoRoot" by (simp add: chain_asset_def)
  have "\<not> isl (fromAsset example_registry chain_asset)" by code_simp
  then have g: "fromAsset example_registry chain_asset = Inr (projr (fromAsset example_registry chain_asset))"
    by (cases "fromAsset example_registry chain_asset") simp_all
  have v: "roots_without_inbound chain_asset = [''A'']" by code_simp
  show ?thesis
    using roots_computed_from_all_connections [OF r g] r g v by simp
qed

text \<open>
  Claim C2 as stated fails: in the asset with nodes \<open>A\<close>, \<open>B\<close> and the single \<^emph>\<open>data\<close>
  connection \<open>A.v \<rightarrow> B.x\<close>, node \<open>B\<close> has no inbound flow connection, so the claim makes
  both nodes roots; the hydrated graph has the root \<open>A\<close> only.
\<close>

theorem roots_flow_only_counterexample:
  "map_sum id g_roots (fromAsset example_registry data_only_asset) = Inr [''A''] \<and>
   roots_without_inbound_flow data_only_asset = [''A'', ''B'']"
  by code_simp

















section \<open>Reading an input\<close>




section \<open>The node protocol\<close>


section \<open>The Loop node\<close>




end
